theory Spec2Isabelle
  imports Main "HOL-Library.AList"
begin

section \<open>Python values, exceptions and the two external services\<close>

text \<open>
  The program is \<^verbatim>\<open>examples/python/search.py\<close>: one function, \<^verbatim>\<open>search_products\<close>,
  that posts the user's query to the rsearch translation endpoint, reads the JSON answer
  and runs the translated WHERE clause against PostgreSQL through psycopg2.

  Values that cross the function (the decoded JSON body, the bound parameters, the cells
  of a row) are Python objects. A \<open>PDict\<close> holds the items of a dict with string keys in
  insertion order; a float is kept as mantissa and binary exponent, it is only passed on.
\<close>

datatype pyval =
    PNone
  | PBool bool
  | PInt int
  | PFloat int int
  | PStr string
  | PList "pyval list"
  | PDict "(string \<times> pyval) list"

text \<open>
  The exception classes that can reach the two \<^verbatim>\<open>except\<close> clauses. The first four are
  subclasses of \<^verbatim>\<open>requests.exceptions.RequestException\<close> (\<open>RequestsJSONDecodeError\<close> is
  \<^verbatim>\<open>requests.exceptions.JSONDecodeError\<close>, what \<^verbatim>\<open>Response.json()\<close> of requests 2.27 and
  later raises on a body that is not JSON), the next four are subclasses of \<^verbatim>\<open>psycopg2.Error\<close>, the rest are
  Python built-ins and belong to neither family.
\<close>

datatype exn =
    ConnectionError
  | Timeout
  | HTTPError int
  | RequestsJSONDecodeError
  | OperationalError
  | ProgrammingError
  | DataError
  | InterfaceError
  | KeyError string
  | TypeError
  | IndexError
  | ValueError

fun isinstance_RequestException :: "exn \<Rightarrow> bool" where
  "isinstance_RequestException ConnectionError = True"
| "isinstance_RequestException Timeout = True"
| "isinstance_RequestException (HTTPError s) = True"
| "isinstance_RequestException RequestsJSONDecodeError = True"
| "isinstance_RequestException e = False"

fun isinstance_psycopg2_Error :: "exn \<Rightarrow> bool" where
  "isinstance_psycopg2_Error OperationalError = True"
| "isinstance_psycopg2_Error ProgrammingError = True"
| "isinstance_psycopg2_Error DataError = True"
| "isinstance_psycopg2_Error InterfaceError = True"
| "isinstance_psycopg2_Error e = False"

text \<open>The JSON body of the request, lines 38 to 42.\<close>

record translate_request =
  schema :: string
  database :: string
  query :: string

text \<open>
  What \<^verbatim>\<open>requests.post\<close> returns: the status code, and the body as \<^verbatim>\<open>json()\<close> decodes it
  (\<open>None\<close> when the body is not JSON).
\<close>

record response =
  status_code :: int
  body :: "pyval option"

text \<open>\<^verbatim>\<open>DB_CONFIG\<close>, lines 15 to 21.\<close>

record db_config =
  host :: string
  port :: int
  dbname :: string
  user :: string
  password :: string

definition DB_CONFIG :: db_config where
  "DB_CONFIG = \<lparr>host = ''localhost'', port = 5432, dbname = ''rsearch_test'',
                 user = ''rsearch'', password = ''rsearch123''\<rparr>"

text \<open>
  An entry of \<^verbatim>\<open>cursor.description\<close>: \<^verbatim>\<open>desc[0]\<close> is the column name, \<^verbatim>\<open>desc[1]\<close> the type
  code. What a cursor holds after \<^verbatim>\<open>execute\<close> returned: its description (\<open>None\<close> when the
  statement produced no result set) and what \<^verbatim>\<open>fetchall()\<close> will do, raise or deliver the
  rows in the store's order.
\<close>

record column =
  col_name :: string
  type_code :: int

record result_set =
  description :: "column list option"
  fetchall :: "exn + pyval list list"

text \<open>
  Everything outside the function: the value of \<^verbatim>\<open>RSEARCH_URL\<close> (line 12), the translation
  endpoint, the database server and its driver, each as the outcome of the call the
  function makes, and Python's \<^verbatim>\<open>str()\<close> on values that are not strings.
\<close>

record env =
  RSEARCH_URL :: string
  http_post :: "string \<Rightarrow> translate_request \<Rightarrow> exn + response"
  db_connect :: "db_config \<Rightarrow> exn option"
  db_execute :: "string \<Rightarrow> pyval \<Rightarrow> exn + result_set"
  py_str :: "pyval \<Rightarrow> string"

text \<open>What the function prints, by line: 47, 48, 49, 50, 69 and 72.\<close>

datatype printed =
    OutQuery string
  | OutSQL pyval
  | OutParams pyval
  | OutRule
  | OutRsearchError exn
  | OutDatabaseError exn

text \<open>
  The effects of one invocation, in the order they happen. \<open>Connect\<close> is the call of
  \<^verbatim>\<open>psycopg2.connect\<close>, \<open>ConnOpen\<close> is logged when it returned a connection.
  \<open>Execute\<close> is the call of \<^verbatim>\<open>cur.execute\<close> with its two arguments, the statement text
  and the object bound to it, logged whether the call returns or raises. \<open>Description\<close>
  is one read of \<^verbatim>\<open>cur.description\<close>.
\<close>

datatype event =
    HttpPost string translate_request
  | Print printed
  | Connect db_config
  | ConnOpen
  | CursorOpen
  | Execute string pyval
  | Description
  | Fetchall
  | CursorClose
  | ConnClose

section \<open>The library calls\<close>

text \<open>
  \<^verbatim>\<open>Response.raise_for_status()\<close> raises \<^verbatim>\<open>HTTPError\<close> for a client error (400 to 499) and
  for a server error (500 to 599), and returns for every other status.
\<close>

definition raise_for_status :: "response \<Rightarrow> exn option" where
  "raise_for_status r =
     (if 400 \<le> status_code r \<and> status_code r < 600 then Some (HTTPError (status_code r))
      else None)"

definition json_of :: "response \<Rightarrow> exn + pyval" where
  "json_of r = (case body r of None \<Rightarrow> Inl RequestsJSONDecodeError | Some v \<Rightarrow> Inr v)"

text \<open>
  \<^verbatim>\<open>obj[key]\<close> with a string key: a dict raises \<^verbatim>\<open>KeyError\<close> for a key it does not have,
  every other JSON value raises \<^verbatim>\<open>TypeError\<close>.
\<close>

fun getitem :: "pyval \<Rightarrow> string \<Rightarrow> exn + pyval" where
  "getitem (PDict kvs) k = (case map_of kvs k of None \<Rightarrow> Inl (KeyError k) | Some v \<Rightarrow> Inr v)"
| "getitem v k = Inl TypeError"

text \<open>A replacement field of an f-string: a string is inserted as it is.\<close>

definition format_value :: "env \<Rightarrow> pyval \<Rightarrow> string" where
  "format_value w v = (case v of PStr s \<Rightarrow> s | _ \<Rightarrow> py_str w v)"

text \<open>
  \<^verbatim>\<open>dict(pairs)\<close>: the pairs are inserted from left to right; a key that is already there
  keeps its place and takes the new value.
\<close>

definition dict_of :: "(string \<times> pyval) list \<Rightarrow> (string \<times> pyval) list" where
  "dict_of ps = fold (\<lambda>(k, v). AList.update k v) ps []"

section \<open>search_products\<close>

text \<open>Lines 36 to 50: the request, the status check, the decoding and the three prints.\<close>

definition translate_lines :: "env \<Rightarrow> string \<Rightarrow> event list \<times> (exn + pyval)" where
  "translate_lines w user_query =
     (let url = RSEARCH_URL w @ ''/api/v1/translate'';
          req = \<lparr>schema = ''products'', database = ''postgres'', query = user_query\<rparr>;
          t0 = [HttpPost url req]
      in case http_post w url req of
           Inl e \<Rightarrow> (t0, Inl e)
         | Inr resp \<Rightarrow>
            (case raise_for_status resp of
               Some e \<Rightarrow> (t0, Inl e)
             | None \<Rightarrow>
                (case json_of resp of
                   Inl e \<Rightarrow> (t0, Inl e)
                 | Inr translation \<Rightarrow>
                    (let t1 = t0 @ [Print (OutQuery user_query)]
                     in case getitem translation ''whereClause'' of
                          Inl e \<Rightarrow> (t1, Inl e)
                        | Inr wc \<Rightarrow>
                           (let t2 = t1 @ [Print (OutSQL wc)]
                            in case getitem translation ''parameters'' of
                                 Inl e \<Rightarrow> (t2, Inl e)
                               | Inr ps \<Rightarrow>
                                  (t2 @ [Print (OutParams ps), Print OutRule],
                                   Inr translation))))))"

text \<open>
  Lines 53 to 66: connect, execute, read the columns, fetch, close, return. Opening the
  cursor and the two \<^verbatim>\<open>close()\<close> calls are taken to return; iterating a description that
  is \<^verbatim>\<open>None\<close> raises \<^verbatim>\<open>TypeError\<close>.
\<close>

definition execute_lines ::
  "env \<Rightarrow> pyval \<Rightarrow> event list \<times> (exn + (string \<times> pyval) list list)" where
  "execute_lines w translation =
     (let t0 = [Connect DB_CONFIG]
      in case db_connect w DB_CONFIG of
           Some e \<Rightarrow> (t0, Inl e)
         | None \<Rightarrow>
            (let t1 = t0 @ [ConnOpen, CursorOpen]
             in case getitem translation ''whereClause'' of
                  Inl e \<Rightarrow> (t1, Inl e)
                | Inr wc \<Rightarrow>
                   (let sql = ''SELECT * FROM products WHERE '' @ format_value w wc
                    in case getitem translation ''parameters'' of
                         Inl e \<Rightarrow> (t1, Inl e)
                       | Inr ps \<Rightarrow>
                          (let t2 = t1 @ [Execute sql ps]
                           in case db_execute w sql ps of
                                Inl e \<Rightarrow> (t2, Inl e)
                              | Inr rs \<Rightarrow>
                                 (let t3 = t2 @ [Description]
                                  in case description rs of
                                       None \<Rightarrow> (t3, Inl TypeError)
                                     | Some descs \<Rightarrow>
                                        (let columns = map col_name descs;
                                             t4 = t3 @ [Fetchall]
                                         in case fetchall rs of
                                              Inl e \<Rightarrow> (t4, Inl e)
                                            | Inr rows \<Rightarrow>
                                               (let results =
                                                      map (\<lambda>row. dict_of (zip columns row)) rows
                                                in (t4 @ [CursorClose, ConnClose],
                                                    Inr results))))))))"

text \<open>The body of the \<^verbatim>\<open>try\<close>: the second part runs only when the first returned.\<close>

definition try_body ::
  "env \<Rightarrow> string \<Rightarrow> event list \<times> (exn + (string \<times> pyval) list list)" where
  "try_body w user_query =
     (case translate_lines w user_query of
        (t, Inl e) \<Rightarrow> (t, Inl e)
      | (t, Inr translation) \<Rightarrow>
         (case execute_lines w translation of (t', r) \<Rightarrow> (t @ t', r)))"

text \<open>
  Lines 34 and 68 to 73: the two handlers print and re-raise the exception they caught;
  an exception of neither family passes through.
\<close>

definition search_products ::
  "env \<Rightarrow> string \<Rightarrow> event list \<times> (exn + (string \<times> pyval) list list)" where
  "search_products w user_query =
     (case try_body w user_query of
        (t, Inr results) \<Rightarrow> (t, Inr results)
      | (t, Inl e) \<Rightarrow>
         (if isinstance_RequestException e then (t @ [Print (OutRsearchError e)], Inl e)
          else if isinstance_psycopg2_Error e then (t @ [Print (OutDatabaseError e)], Inl e)
          else (t, Inl e)))"
section \<open>Reading a trace\<close>

text \<open>The address and the body of the request (lines 37 to 42), the statement of line 56.\<close>

abbreviation endpoint :: "env \<Rightarrow> string" where
  "endpoint w \<equiv> RSEARCH_URL w @ ''/api/v1/translate''"

abbreviation request_for :: "string \<Rightarrow> translate_request" where
  "request_for user_query \<equiv>
     \<lparr>schema = ''products'', database = ''postgres'', query = user_query\<rparr>"

abbreviation statement_for :: "env \<Rightarrow> pyval \<Rightarrow> string" where
  "statement_for w wc \<equiv> ''SELECT * FROM products WHERE '' @ format_value w wc"

fun is_post :: "event \<Rightarrow> bool" where
  "is_post (HttpPost u r) = True"
| "is_post ev = False"

fun is_execute :: "event \<Rightarrow> bool" where
  "is_execute (Execute s p) = True"
| "is_execute ev = False"

text \<open>The events of the execution stage: every call on the driver.\<close>

fun is_store_event :: "event \<Rightarrow> bool" where
  "is_store_event (HttpPost u r) = False"
| "is_store_event (Print p) = False"
| "is_store_event ev = True"

text \<open>The reports of the two handlers, lines 69 and 72.\<close>

fun is_error_print :: "event \<Rightarrow> bool" where
  "is_error_print (Print (OutRsearchError e)) = True"
| "is_error_print (Print (OutDatabaseError e)) = True"
| "is_error_print ev = False"

text \<open>Whether a connection is open once the events of a trace have happened.\<close>

definition connection_open :: "event list \<Rightarrow> bool" where
  "connection_open t =
     fold (\<lambda>ev opn. if ev = ConnOpen then True else if ev = ConnClose then False else opn)
       t False"

text \<open>
  The positional placeholders of a statement text as psycopg2 reads it: each \<^verbatim>\<open>%s\<close>
  is one, \<^verbatim>\<open>%%\<close> is a literal percent sign.
\<close>

fun placeholders :: "string \<Rightarrow> nat" where
  "placeholders (c # d # cs) =
     (if c = CHR ''%'' then (if d = CHR ''s'' then Suc (placeholders cs) else placeholders cs)
      else placeholders (d # cs))"
| "placeholders cs = 0"

section \<open>Example runs\<close>

text \<open>
  An environment in which each external call has one fixed outcome: what the post
  returns, what connecting does, what executing the statement does. The where clauses of
  the examples are strings, so \<^verbatim>\<open>str()\<close> of another value is never asked for.
\<close>

definition scenario :: "(exn + response) \<Rightarrow> exn option \<Rightarrow> (exn + result_set) \<Rightarrow> env" where
  "scenario p c x =
     \<lparr>RSEARCH_URL = ''http://localhost:8080'', http_post = (\<lambda>u r. p), db_connect = (\<lambda>cfg. c),
      db_execute = (\<lambda>s ps. x), py_str = (\<lambda>v. [])\<rparr>"

definition answer :: "int \<Rightarrow> pyval \<Rightarrow> exn + response" where
  "answer s v = Inr \<lparr>status_code = s, body = Some v\<rparr>"

text \<open>The answer of the service to \<^verbatim>\<open>productCode:13w42\<close>, and a table of two products.\<close>

definition by_code :: pyval where
  "by_code = PDict [(''whereClause'', PStr ''product_code = %s''),
                    (''parameters'', PList [PStr ''13w42''])]"

text \<open>The same clause with a parameter value that carries SQL of its own.\<close>

definition by_hostile_code :: pyval where
  "by_hostile_code = PDict [(''whereClause'', PStr ''product_code = %s''),
                            (''parameters'', PList [PStr ''13w42; DROP TABLE products''])]"

definition product_columns :: "column list" where
  "product_columns = [\<lparr>col_name = ''product_code'', type_code = 1043\<rparr>,
                      \<lparr>col_name = ''price'', type_code = 23\<rparr>]"

definition two_products :: result_set where
  "two_products = \<lparr>description = Some product_columns,
                    fetchall = Inr [[PStr ''13w42'', PInt 120], [PStr ''13w42'', PInt 80]]\<rparr>"

definition no_products :: result_set where
  "no_products = \<lparr>description = Some product_columns, fetchall = Inr []\<rparr>"

text \<open>
  A range query answered with two placeholders and one parameter, and a result set whose
  metadata names \<^verbatim>\<open>id\<close> twice.
\<close>

definition short_range :: pyval where
  "short_range = PDict [(''whereClause'', PStr ''rod_length >= %s AND rod_length <= %s''),
                        (''parameters'', PList [PInt 50])]"

definition joined_rows :: result_set where
  "joined_rows =
     \<lparr>description = Some [\<lparr>col_name = ''id'', type_code = 23\<rparr>,
                          \<lparr>col_name = ''name'', type_code = 1043\<rparr>,
                          \<lparr>col_name = ''id'', type_code = 23\<rparr>],
      fetchall = Inr [[PInt 1, PStr ''Widget'', PInt 7]]\<rparr>"

section \<open>The two halves of the try body and the handlers\<close>

lemma search_products_trace:
  "fst (search_products w q) =
     fst (try_body w q) @
       (case snd (try_body w q) of
          Inr rs \<Rightarrow> []
        | Inl e \<Rightarrow>
           if isinstance_RequestException e then [Print (OutRsearchError e)]
           else if isinstance_psycopg2_Error e then [Print (OutDatabaseError e)]
           else [])"
  by (simp add: search_products_def split: prod.splits sum.splits)

lemma search_products_result: "snd (search_products w q) = snd (try_body w q)"
  by (simp add: search_products_def split: prod.splits sum.splits)

lemma try_body_trace:
  "fst (try_body w q) =
     (case snd (translate_lines w q) of
        Inl e \<Rightarrow> fst (translate_lines w q)
      | Inr t \<Rightarrow> fst (translate_lines w q) @ fst (execute_lines w t))"
  by (simp add: try_body_def split: prod.splits sum.splits)

lemma try_body_result:
  "snd (try_body w q) =
     (case snd (translate_lines w q) of
        Inl e \<Rightarrow> Inl e
      | Inr t \<Rightarrow> snd (execute_lines w t))"
  by (simp add: try_body_def split: prod.splits sum.splits)

lemma translate_lines_Inr:
  "snd (translate_lines w q) = Inr t \<longleftrightarrow>
     (\<exists>resp wc ps. http_post w (endpoint w) (request_for q) = Inr resp \<and>
        raise_for_status resp = None \<and> body resp = Some t \<and>
        getitem t ''whereClause'' = Inr wc \<and> getitem t ''parameters'' = Inr ps)"
  by (auto simp add: translate_lines_def json_of_def Let_def split: sum.splits option.splits)

lemma translate_lines_posts:
  "filter is_post (fst (translate_lines w q)) = [HttpPost (endpoint w) (request_for q)]"
  by (simp add: translate_lines_def Let_def split: sum.splits option.splits)

lemma translate_lines_no_store:
  "filter is_store_event (fst (translate_lines w q)) = []"
  by (simp add: translate_lines_def Let_def split: sum.splits option.splits)

lemma execute_lines_posts: "filter is_post (fst (execute_lines w t)) = []"
  by (simp add: execute_lines_def Let_def split: sum.splits option.splits)

lemma execute_lines_Inr:
  "snd (execute_lines w t) = Inr results \<longleftrightarrow>
     (\<exists>wc ps rs descs rows. db_connect w DB_CONFIG = None \<and>
        getitem t ''whereClause'' = Inr wc \<and> getitem t ''parameters'' = Inr ps \<and>
        db_execute w (statement_for w wc) ps = Inr rs \<and>
        description rs = Some descs \<and> fetchall rs = Inr rows \<and>
        results = map (\<lambda>row. dict_of (zip (map col_name descs) row)) rows)"
  by (auto simp add: execute_lines_def Let_def split: sum.splits option.splits)

lemma execute_lines_statements:
  "filter is_execute (fst (execute_lines w t)) =
     (case (db_connect w DB_CONFIG, getitem t ''whereClause'', getitem t ''parameters'') of
        (None, Inr wc, Inr ps) \<Rightarrow> [Execute (statement_for w wc) ps]
      | _ \<Rightarrow> [])"
  by (simp add: execute_lines_def Let_def split: sum.splits option.splits)

lemma translate_lines_statements: "filter is_execute (fst (translate_lines w q)) = []"
  by (simp add: translate_lines_def Let_def split: sum.splits option.splits)

lemma exception_families_disjoint:
  "isinstance_psycopg2_Error e \<Longrightarrow> \<not> isinstance_RequestException e"
  by (cases e) simp_all

lemma successful_run:
  assumes "http_post w (endpoint w) (request_for q) = Inr resp"
    and "raise_for_status resp = None"
    and "body resp = Some t"
    and "getitem t ''whereClause'' = Inr wc"
    and "getitem t ''parameters'' = Inr ps"
    and "db_connect w DB_CONFIG = None"
    and "db_execute w (statement_for w wc) ps = Inr rs"
    and "description rs = Some descs"
    and "fetchall rs = Inr rows"
  shows "search_products w q =
           ([HttpPost (endpoint w) (request_for q), Print (OutQuery q), Print (OutSQL wc),
             Print (OutParams ps), Print OutRule, Connect DB_CONFIG, ConnOpen, CursorOpen,
             Execute (statement_for w wc) ps, Description, Fetchall, CursorClose, ConnClose],
            Inr (map (\<lambda>row. dict_of (zip (map col_name descs) row)) rows))"
proof -
  have tr: "translate_lines w q =
              ([HttpPost (endpoint w) (request_for q), Print (OutQuery q), Print (OutSQL wc),
                Print (OutParams ps), Print OutRule], Inr t)"
    using assms(1-5) by (simp add: translate_lines_def json_of_def Let_def)
  have ex: "execute_lines w t =
              ([Connect DB_CONFIG, ConnOpen, CursorOpen, Execute (statement_for w wc) ps,
                Description, Fetchall, CursorClose, ConnClose],
               Inr (map (\<lambda>row. dict_of (zip (map col_name descs) row)) rows))"
    using assms(4-9) by (simp add: execute_lines_def Let_def)
  show ?thesis
    by (simp add: search_products_def try_body_def tr ex)
qed

subsection \<open>What \<^verbatim>\<open>dict\<close> builds\<close>

lemma fold_update_map_of:
  "map_of (fold (\<lambda>(k, v). AList.update k v) ps acc) = map_of acc ++ map_of (rev ps)"
proof (induction ps arbitrary: acc)
  case Nil
  show ?case by simp
next
  case (Cons p ps)
  obtain k v where p: "p = (k, v)" by (cases p)
  have "map_of (AList.update k v acc) ++ map_of (rev ps)
          = map_of acc ++ (map_of (rev ps @ [(k, v)]))"
    by (simp add: update_conv' map_add_def fun_eq_iff split: option.splits)
  then show ?case using Cons.IH [of "AList.update k v acc"] p by simp
qed

lemma dict_of_map_of: "map_of (dict_of ps) = map_of (rev ps)"
  by (simp add: dict_of_def fold_update_map_of)

lemma fold_update_keys:
  "fst ` set (fold (\<lambda>(k, v). AList.update k v) ps acc) = fst ` set acc \<union> fst ` set ps"
proof (induction ps arbitrary: acc)
  case Nil
  show ?case by simp
next
  case (Cons p ps)
  obtain k v where p: "p = (k, v)" by (cases p)
  show ?case using Cons.IH [of "AList.update k v acc"] p
    by (simp add: dom_update Un_assoc)
qed

lemma fold_update_distinct:
  "distinct (map fst acc) \<Longrightarrow> distinct (map fst (fold (\<lambda>(k, v). AList.update k v) ps acc))"
proof (induction ps arbitrary: acc)
  case Nil
  then show ?case by simp
next
  case (Cons p ps)
  obtain k v where p: "p = (k, v)" by (cases p)
  show ?case using Cons.IH [of "AList.update k v acc"] Cons.prems p
    by (simp add: distinct_update)
qed

lemma dict_of_length: "length (dict_of ps) = card (fst ` set ps)"
proof -
  have d: "distinct (map fst (dict_of ps))"
    by (simp add: dict_of_def fold_update_distinct)
  have "length (dict_of ps) = length (map fst (dict_of ps))" by simp
  also have "\<dots> = card (set (map fst (dict_of ps)))"
    using d by (simp only: distinct_card)
  also have "\<dots> = card (fst ` set ps)"
    by (simp add: dict_of_def fold_update_keys)
  finally show ?thesis .
qed

lemma dict_of_shorter:
  assumes "\<not> distinct (map fst ps)"
  shows "length (dict_of ps) < length ps"
proof -
  have "card (set (map fst ps)) \<le> length (map fst ps)" by (rule card_length)
  moreover have "card (set (map fst ps)) \<noteq> length (map fst ps)"
    using assms card_distinct by blast
  ultimately show ?thesis by (simp add: dict_of_length)
qed

lemma last_binding_wins:
  "j < length ps \<Longrightarrow> (\<forall>j'. j < j' \<and> j' < length ps \<longrightarrow> fst (ps ! j') \<noteq> fst (ps ! j)) \<Longrightarrow>
     map_of (rev ps) (fst (ps ! j)) = Some (snd (ps ! j))"
proof (induction ps rule: rev_induct)
  case Nil
  then show ?case by simp
next
  case (snoc x xs)
  show ?case
  proof (cases "j = length xs")
    case True
    then show ?thesis by simp
  next
    case False
    with snoc.prems have j: "j < length xs" by simp
    have ne: "fst x \<noteq> fst (xs ! j)"
      using snoc.prems(2) [rule_format, of "length xs"] j by (simp add: nth_append)
    have later: "\<forall>j'. j < j' \<and> j' < length xs \<longrightarrow> fst (xs ! j') \<noteq> fst (xs ! j)"
    proof (intro allI impI)
      fix j' assume a: "j < j' \<and> j' < length xs"
      then show "fst (xs ! j') \<noteq> fst (xs ! j)"
        using snoc.prems(2) [rule_format, of j'] j by (simp add: nth_append)
    qed
    show ?thesis using snoc.IH [OF j later] ne j by (simp add: nth_append)
  qed
qed

lemma connection_open_append:
  "connection_open (t @ [ConnClose]) = False" "connection_open (t @ [ConnOpen]) = True"
  by (simp_all add: connection_open_def)

lemmas run_defs =
  search_products_def try_body_def translate_lines_def execute_lines_def Let_def
  raise_for_status_def json_of_def format_value_def dict_of_def

lemmas example_defs =
  scenario_def answer_def by_code_def by_hostile_code_def product_columns_def two_products_def no_products_def
  short_range_def joined_rows_def

lemma search_products_statements:
  "filter is_execute (fst (search_products w q)) =
     (case snd (translate_lines w q) of
        Inl e \<Rightarrow> []
      | Inr t \<Rightarrow> filter is_execute (fst (execute_lines w t)))"
  by (simp add: search_products_trace try_body_trace try_body_result translate_lines_statements
      split: sum.splits)

lemma translate_lines_no_reports: "filter is_error_print (fst (translate_lines w q)) = []"
  by (simp add: translate_lines_def Let_def split: sum.splits option.splits)

lemma execute_lines_no_reports: "filter is_error_print (fst (execute_lines w t)) = []"
  by (simp add: execute_lines_def Let_def split: sum.splits option.splits)

lemma search_products_reports:
  "filter is_error_print (fst (search_products w q)) =
     (case snd (search_products w q) of
        Inr rs \<Rightarrow> []
      | Inl e \<Rightarrow>
         if isinstance_RequestException e then [Print (OutRsearchError e)]
         else if isinstance_psycopg2_Error e then [Print (OutDatabaseError e)]
         else [])"
  by (simp add: search_products_trace search_products_result try_body_trace
      translate_lines_no_reports execute_lines_no_reports split: sum.splits)

section \<open>The translation request\<close>

text \<open>
  C9. Whatever the endpoint and the database do, an invocation calls \<^verbatim>\<open>requests.post\<close>
  exactly once, as its first effect, on \<^verbatim>\<open>{RSEARCH_URL}/api/v1/translate\<close>; the body holds
  the schema name \<^verbatim>\<open>products\<close>, the dialect \<^verbatim>\<open>postgres\<close> and the caller's query string
  unchanged, for every string. (The claim counts the calls on the translation service;
  the database connection is the subject of the execution stage.)
\<close>

theorem one_post_with_verbatim_query:
  "filter is_post (fst (search_products w user_query)) =
     [HttpPost (RSEARCH_URL w @ ''/api/v1/translate'')
        \<lparr>schema = ''products'', database = ''postgres'', query = user_query\<rparr>]
   \<and> take 1 (fst (search_products w user_query)) =
     [HttpPost (RSEARCH_URL w @ ''/api/v1/translate'')
        \<lparr>schema = ''products'', database = ''postgres'', query = user_query\<rparr>]"
proof -
  have "\<exists>rest. fst (translate_lines w user_query) =
          HttpPost (endpoint w) (request_for user_query) # rest"
    by (simp add: translate_lines_def Let_def split: sum.splits option.splits)
  then obtain rest where
    "fst (translate_lines w user_query) = HttpPost (endpoint w) (request_for user_query) # rest" ..
  then have "\<exists>rest'. fst (search_products w user_query) =
          HttpPost (endpoint w) (request_for user_query) # rest'"
    by (simp add: search_products_trace try_body_trace split: sum.splits)
  then have "take 1 (fst (search_products w user_query)) =
          [HttpPost (endpoint w) (request_for user_query)]"
    by auto
  moreover have "filter is_post (fst (search_products w user_query)) =
          [HttpPost (endpoint w) (request_for user_query)]"
    by (simp add: search_products_trace try_body_trace translate_lines_posts execute_lines_posts
        split: sum.splits)
  ultimately show ?thesis by simp
qed

section \<open>The statement and its parameters\<close>

text \<open>
  C1. Whenever \<^verbatim>\<open>cur.execute\<close> is called, its first argument, the statement text, is the
  fixed prefix \<^verbatim>\<open>SELECT * FROM products WHERE\<close> followed by the \<^verbatim>\<open>whereClause\<close> of the
  service's answer and nothing else, and its second argument is the \<^verbatim>\<open>parameters\<close> object
  of that answer: the parameter values go to the driver as bind values and are no part
  of the text.
\<close>

theorem statement_text_from_template_and_whereClause:
  assumes "Execute sql ps \<in> set (fst (search_products w user_query))"
  shows "\<exists>resp translation wc.
           http_post w (endpoint w) (request_for user_query) = Inr resp \<and>
           body resp = Some translation \<and>
           getitem translation ''whereClause'' = Inr wc \<and>
           getitem translation ''parameters'' = Inr ps \<and>
           sql = ''SELECT * FROM products WHERE '' @ format_value w wc \<and>
           (\<forall>s. wc = PStr s \<longrightarrow> sql = ''SELECT * FROM products WHERE '' @ s)"
proof (cases "snd (translate_lines w user_query)")
  case (Inl e)
  have "filter is_execute (fst (search_products w user_query)) = []"
    by (simp only: search_products_statements Inl sum.case)
  moreover have "Execute sql ps \<in> set (filter is_execute (fst (search_products w user_query)))"
    using assms by simp
  ultimately show ?thesis by simp
next
  case (Inr t)
  have "filter is_execute (fst (search_products w user_query)) =
          filter is_execute (fst (execute_lines w t))"
    by (simp only: search_products_statements Inr sum.case)
  moreover have "Execute sql ps \<in> set (filter is_execute (fst (search_products w user_query)))"
    using assms by simp
  ultimately have ex: "Execute sql ps \<in> set
      (case (db_connect w DB_CONFIG, getitem t ''whereClause'', getitem t ''parameters'') of
         (None, Inr wc, Inr ps) \<Rightarrow> [Execute (statement_for w wc) ps]
       | _ \<Rightarrow> [])"
    by (simp only: execute_lines_statements)
  then obtain wc where wc: "getitem t ''whereClause'' = Inr wc"
    and ps: "getitem t ''parameters'' = Inr ps"
    and sql: "sql = statement_for w wc"
    by (cases "db_connect w DB_CONFIG"; cases "getitem t ''whereClause''";
        cases "getitem t ''parameters''") simp_all
  from Inr obtain resp where "http_post w (endpoint w) (request_for user_query) = Inr resp"
    and "body resp = Some t"
    unfolding translate_lines_Inr by blast
  with wc ps sql show ?thesis
    by (auto simp add: format_value_def)
qed

text \<open>
  A parameter value that carries a semicolon and SQL keywords stays out of the text.
\<close>

theorem statement_text_from_template_and_whereClause_witness:
  "Execute ''SELECT * FROM products WHERE product_code = %s'' (PList [PStr ''13w42; DROP TABLE products''])
     \<in> set (fst (search_products
          (scenario (answer 200 by_hostile_code) None (Inr no_products))
          ''productCode:13w42; DROP TABLE products''))
   \<and> (\<exists>resp translation wc.
         http_post (scenario (answer 200 by_hostile_code) None (Inr no_products))
           (endpoint (scenario (answer 200 by_hostile_code) None (Inr no_products)))
           (request_for ''productCode:13w42; DROP TABLE products'') = Inr resp \<and>
         body resp = Some translation \<and>
         getitem translation ''whereClause'' = Inr wc \<and>
         getitem translation ''parameters'' = Inr (PList [PStr ''13w42; DROP TABLE products'']) \<and>
         ''SELECT * FROM products WHERE product_code = %s'' =
            ''SELECT * FROM products WHERE '' @
              format_value (scenario (answer 200 by_hostile_code) None (Inr no_products)) wc \<and>
         (\<forall>s. wc = PStr s \<longrightarrow>
            ''SELECT * FROM products WHERE product_code = %s'' = ''SELECT * FROM products WHERE '' @ s))"
proof -
  have h: "Execute ''SELECT * FROM products WHERE product_code = %s'' (PList [PStr ''13w42; DROP TABLE products''])
     \<in> set (fst (search_products
          (scenario (answer 200 by_hostile_code) None (Inr no_products))
          ''productCode:13w42; DROP TABLE products''))"
    by (simp add: run_defs example_defs)
  from statement_text_from_template_and_whereClause [OF h] h show ?thesis by blast
qed

text \<open>
  C5, as amended. For every answer of the service that has both fields, once the
  connection is open the function calls \<^verbatim>\<open>cur.execute\<close> exactly once and hands it the
  \<^verbatim>\<open>parameters\<close> object unchanged, neither shortened nor padded; it compares no counts
  itself. Whatever exception the driver raises for the statement is the exception of the
  invocation, so no records are returned: a \<^verbatim>\<open>psycopg2.Error\<close> is reported as a database
  error and raised again, an exception of neither family passes both handlers unreported.
\<close>

theorem parameters_reach_the_driver_unchanged:
  assumes "http_post w (endpoint w) (request_for q) = Inr resp"
    and "raise_for_status resp = None"
    and "body resp = Some t"
    and "getitem t ''whereClause'' = Inr wc"
    and "getitem t ''parameters'' = Inr ps"
    and "db_connect w DB_CONFIG = None"
  shows "filter is_execute (fst (search_products w q)) = [Execute (statement_for w wc) ps]
       \<and> (\<forall>e. db_execute w (statement_for w wc) ps = Inl e \<longrightarrow>
            snd (search_products w q) = Inl e \<and>
            (isinstance_psycopg2_Error e \<longrightarrow>
               filter is_error_print (fst (search_products w q)) = [Print (OutDatabaseError e)]) \<and>
            (\<not> isinstance_psycopg2_Error e \<and> \<not> isinstance_RequestException e \<longrightarrow>
               filter is_error_print (fst (search_products w q)) = []))"
proof -
  have t: "snd (translate_lines w q) = Inr t"
    unfolding translate_lines_Inr using assms(1-5) by blast
  have st: "filter is_execute (fst (search_products w q)) = [Execute (statement_for w wc) ps]"
    by (simp add: search_products_statements t execute_lines_statements assms(4-6))
  have res: "db_execute w (statement_for w wc) ps = Inl e \<Longrightarrow> snd (search_products w q) = Inl e" for e
    using assms(4-6)
    by (simp add: search_products_result try_body_result t execute_lines_def Let_def)
  show ?thesis
    using st res exception_families_disjoint
    by (auto simp add: search_products_reports)
qed

theorem parameters_reach_the_driver_unchanged_witness:
  "(filter is_execute
      (fst (search_products (scenario (answer 200 short_range) None (Inl ProgrammingError))
         ''rodLength:[50 TO 200]''))
      = [Execute ''SELECT * FROM products WHERE rod_length >= %s AND rod_length <= %s'' (PList [PInt 50])]
    \<and> snd (search_products (scenario (answer 200 short_range) None (Inl ProgrammingError))
         ''rodLength:[50 TO 200]'') = Inl ProgrammingError
    \<and> filter is_error_print
        (fst (search_products (scenario (answer 200 short_range) None (Inl ProgrammingError))
           ''rodLength:[50 TO 200]''))
      = [Print (OutDatabaseError ProgrammingError)])
   \<and> (snd (search_products (scenario (answer 200 short_range) None (Inl TypeError))
         ''rodLength:[50 TO 200]'') = Inl TypeError
    \<and> filter is_error_print
        (fst (search_products (scenario (answer 200 short_range) None (Inl TypeError))
           ''rodLength:[50 TO 200]'')) = [])"
proof -
  let ?w = "scenario (answer 200 short_range) None (Inl ProgrammingError)"
  let ?v = "scenario (answer 200 short_range) None (Inl TypeError)"
  have h2: "raise_for_status \<lparr>status_code = 200, body = Some short_range\<rparr> = None"
    by (simp add: raise_for_status_def)
  have h3: "body \<lparr>status_code = 200, body = Some short_range\<rparr> = Some short_range"
    by simp
  have h4: "getitem short_range ''whereClause'' = Inr (PStr ''rod_length >= %s AND rod_length <= %s'')"
    by (simp add: short_range_def)
  have h5: "getitem short_range ''parameters'' = Inr (PList [PInt 50])"
    by (simp add: short_range_def)
  have w1: "http_post ?w (endpoint ?w) (request_for ''rodLength:[50 TO 200]'')
              = Inr \<lparr>status_code = 200, body = Some short_range\<rparr>"
    by (simp add: scenario_def answer_def)
  have w6: "db_connect ?w DB_CONFIG = None"
    by (simp add: scenario_def)
  have wx: "db_execute ?w (statement_for ?w (PStr ''rod_length >= %s AND rod_length <= %s''))
             (PList [PInt 50]) = Inl ProgrammingError"
    by (simp add: scenario_def)
  have v1: "http_post ?v (endpoint ?v) (request_for ''rodLength:[50 TO 200]'')
              = Inr \<lparr>status_code = 200, body = Some short_range\<rparr>"
    by (simp add: scenario_def answer_def)
  have v6: "db_connect ?v DB_CONFIG = None"
    by (simp add: scenario_def)
  have vx: "db_execute ?v (statement_for ?v (PStr ''rod_length >= %s AND rod_length <= %s''))
             (PList [PInt 50]) = Inl TypeError"
    by (simp add: scenario_def)
  from parameters_reach_the_driver_unchanged [OF w1 h2 h3 h4 h5 w6] wx
  have a: "filter is_execute (fst (search_products ?w ''rodLength:[50 TO 200]''))
      = [Execute ''SELECT * FROM products WHERE rod_length >= %s AND rod_length <= %s'' (PList [PInt 50])]
    \<and> snd (search_products ?w ''rodLength:[50 TO 200]'') = Inl ProgrammingError
    \<and> filter is_error_print (fst (search_products ?w ''rodLength:[50 TO 200]''))
      = [Print (OutDatabaseError ProgrammingError)]"
    by (simp add: format_value_def)
  from parameters_reach_the_driver_unchanged [OF v1 h2 h3 h4 h5 v6] vx
  have b: "snd (search_products ?v ''rodLength:[50 TO 200]'') = Inl TypeError
    \<and> filter is_error_print (fst (search_products ?v ''rodLength:[50 TO 200]'')) = []"
    by (simp add: format_value_def)
  from a b show ?thesis by (intro conjI) simp_all
qed

text \<open>
  The claim as stated fails: two placeholders, one parameter. psycopg2 formats the
  statement on the client and raises \<^verbatim>\<open>IndexError\<close> when the sequence is too short, which
  is no \<^verbatim>\<open>psycopg2.Error\<close>; the second handler does not see it and nothing is reported.
\<close>

theorem arity_mismatch_raises_outside_psycopg2_counterexample:
  "placeholders ''SELECT * FROM products WHERE rod_length >= %s AND rod_length <= %s'' = 2
   \<and> getitem short_range ''parameters'' = Inr (PList [PInt 50])
   \<and> search_products (scenario (answer 200 short_range) None (Inl IndexError)) ''rodLength:[50 TO 200]''
     = ([HttpPost ''http://localhost:8080/api/v1/translate'' (request_for ''rodLength:[50 TO 200]''),
         Print (OutQuery ''rodLength:[50 TO 200]''),
         Print (OutSQL (PStr ''rod_length >= %s AND rod_length <= %s'')),
         Print (OutParams (PList [PInt 50])), Print OutRule,
         Connect DB_CONFIG, ConnOpen, CursorOpen,
         Execute ''SELECT * FROM products WHERE rod_length >= %s AND rod_length <= %s''
           (PList [PInt 50])],
        Inl IndexError)
   \<and> \<not> isinstance_psycopg2_Error IndexError"
  by (simp add: run_defs example_defs)

section \<open>Releasing the connection\<close>

text \<open>
  On the path that returns, the connection is closed before the records are handed back
  (lines 63 and 64).
\<close>

lemma connection_closed_on_return:
  assumes "snd (search_products w q) = Inr results"
  shows "\<not> connection_open (fst (search_products w q))"
proof -
  from assms obtain t where t: "snd (translate_lines w q) = Inr t"
    and ex: "snd (execute_lines w t) = Inr results"
    by (auto simp add: search_products_result try_body_result split: sum.splits)
  from ex have "\<exists>t'. fst (execute_lines w t) = t' @ [ConnClose]"
    by (auto simp add: execute_lines_def Let_def split: sum.splits option.splits)
  then obtain t' where "fst (execute_lines w t) = t' @ [ConnClose]" ..
  with t assms have "fst (search_products w q) = (fst (translate_lines w q) @ t') @ [ConnClose]"
    by (simp add: search_products_trace try_body_trace try_body_result search_products_result)
  then show ?thesis
    by (simp only: connection_open_append simp_thms)
qed

text \<open>
  C2. The claim fails on the code: when the store rejects the statement, \<^verbatim>\<open>cur.execute\<close>
  raises, control goes to the handler of line 71, which reports and raises again; lines
  63 and 64 are skipped, and the connection opened on line 53 is still open when the
  error reaches the caller.
\<close>

theorem connection_left_open_when_statement_rejected:
  "search_products (scenario (answer 200 by_code) None (Inl ProgrammingError)) ''productCode:13w42'' =
     ([HttpPost ''http://localhost:8080/api/v1/translate'' (request_for ''productCode:13w42''),
       Print (OutQuery ''productCode:13w42''), Print (OutSQL (PStr ''product_code = %s'')),
       Print (OutParams (PList [PStr ''13w42''])), Print OutRule,
       Connect DB_CONFIG, ConnOpen, CursorOpen,
       Execute ''SELECT * FROM products WHERE product_code = %s'' (PList [PStr ''13w42'']),
       Print (OutDatabaseError ProgrammingError)],
      Inl ProgrammingError)
   \<and> connection_open (fst (search_products (scenario (answer 200 by_code) None (Inl ProgrammingError))
         ''productCode:13w42''))"
  by (simp add: run_defs example_defs connection_open_def)

section \<open>Failures of the translation stage\<close>

text \<open>
  C3, as amended. For every answer with a status from 200 to 299: when the body is not
  JSON, the invocation raises \<^verbatim>\<open>requests.exceptions.JSONDecodeError\<close>, a
  \<^verbatim>\<open>RequestException\<close>, reported by the first handler; when the body is a JSON object
  without \<^verbatim>\<open>whereClause\<close>, or with it and without \<^verbatim>\<open>parameters\<close>, the invocation raises the
  \<^verbatim>\<open>KeyError\<close> of the missing field from line 48 or 49, which neither handler catches or
  reports. In each case no call on the store is made.
\<close>

theorem malformed_body_outcome:
  assumes "http_post w (endpoint w) (request_for q) = Inr resp"
    and "200 \<le> status_code resp" and "status_code resp < 300"
  shows "(body resp = None \<longrightarrow>
            search_products w q =
              ([HttpPost (endpoint w) (request_for q), Print (OutRsearchError RequestsJSONDecodeError)],
               Inl RequestsJSONDecodeError))
       \<and> (\<forall>kvs. body resp = Some (PDict kvs) \<and> map_of kvs ''whereClause'' = None \<longrightarrow>
            search_products w q =
              ([HttpPost (endpoint w) (request_for q), Print (OutQuery q)],
               Inl (KeyError ''whereClause'')))
       \<and> (\<forall>kvs wc. body resp = Some (PDict kvs) \<and> map_of kvs ''whereClause'' = Some wc \<and>
              map_of kvs ''parameters'' = None \<longrightarrow>
            search_products w q =
              ([HttpPost (endpoint w) (request_for q), Print (OutQuery q), Print (OutSQL wc)],
               Inl (KeyError ''parameters'')))"
proof -
  have ok: "raise_for_status resp = None"
    using assms(2,3) by (simp add: raise_for_status_def)
  have a: "body resp = None \<Longrightarrow>
            search_products w q =
              ([HttpPost (endpoint w) (request_for q), Print (OutRsearchError RequestsJSONDecodeError)],
               Inl RequestsJSONDecodeError)"
    using assms(1) ok
    by (simp add: search_products_def try_body_def translate_lines_def json_of_def Let_def)
  have b: "body resp = Some (PDict kvs) \<Longrightarrow> map_of kvs ''whereClause'' = None \<Longrightarrow>
            search_products w q =
              ([HttpPost (endpoint w) (request_for q), Print (OutQuery q)],
               Inl (KeyError ''whereClause''))" for kvs
    using assms(1) ok
    by (simp add: search_products_def try_body_def translate_lines_def json_of_def Let_def)
  have c: "body resp = Some (PDict kvs) \<Longrightarrow> map_of kvs ''whereClause'' = Some wc \<Longrightarrow>
              map_of kvs ''parameters'' = None \<Longrightarrow>
            search_products w q =
              ([HttpPost (endpoint w) (request_for q), Print (OutQuery q), Print (OutSQL wc)],
               Inl (KeyError ''parameters''))" for kvs wc
    using assms(1) ok
    by (simp add: search_products_def try_body_def translate_lines_def json_of_def Let_def)
  from a b c show ?thesis by blast
qed

theorem malformed_body_outcome_witness:
  "search_products (scenario (Inr \<lparr>status_code = 200, body = None\<rparr>) None (Inr no_products))
      ''productCode:13w42''
     = ([HttpPost ''http://localhost:8080/api/v1/translate'' (request_for ''productCode:13w42''),
         Print (OutRsearchError RequestsJSONDecodeError)],
        Inl RequestsJSONDecodeError)
   \<and> search_products (scenario (answer 200 (PDict [(''parameters'', PList [])])) None (Inr no_products))
        ''productCode:13w42''
     = ([HttpPost ''http://localhost:8080/api/v1/translate'' (request_for ''productCode:13w42''),
         Print (OutQuery ''productCode:13w42'')],
        Inl (KeyError ''whereClause''))
   \<and> search_products (scenario (answer 200 (PDict [(''whereClause'', PStr ''price >= %s'')])) None
          (Inr no_products)) ''price:>=100''
     = ([HttpPost ''http://localhost:8080/api/v1/translate'' (request_for ''price:>=100''),
         Print (OutQuery ''price:>=100''), Print (OutSQL (PStr ''price >= %s''))],
        Inl (KeyError ''parameters''))"
proof -
  let ?w1 = "scenario (Inr \<lparr>status_code = 200, body = None\<rparr>) None (Inr no_products)"
  let ?w2 = "scenario (answer 200 (PDict [(''parameters'', PList [])])) None (Inr no_products)"
  let ?w3 = "scenario (answer 200 (PDict [(''whereClause'', PStr ''price >= %s'')])) None
               (Inr no_products)"
  have p1: "http_post ?w1 (endpoint ?w1) (request_for ''productCode:13w42'')
              = Inr \<lparr>status_code = 200, body = None\<rparr>"
    by (simp add: scenario_def)
  have p2: "http_post ?w2 (endpoint ?w2) (request_for ''productCode:13w42'')
              = Inr \<lparr>status_code = 200, body = Some (PDict [(''parameters'', PList [])])\<rparr>"
    by (simp add: scenario_def answer_def)
  have p3: "http_post ?w3 (endpoint ?w3) (request_for ''price:>=100'')
              = Inr \<lparr>status_code = 200, body = Some (PDict [(''whereClause'', PStr ''price >= %s'')])\<rparr>"
    by (simp add: scenario_def answer_def)
  from malformed_body_outcome [OF p1] malformed_body_outcome [OF p2]
    malformed_body_outcome [OF p3]
  show ?thesis by (simp add: scenario_def)
qed

text \<open>
  The claim as stated fails: an answer with status 200 whose body lacks \<^verbatim>\<open>whereClause\<close>
  ends in a \<^verbatim>\<open>KeyError\<close>, which belongs to neither family of exceptions.
\<close>

theorem missing_field_raises_untagged_KeyError_counterexample:
  "http_post (scenario (answer 200 (PDict [(''parameters'', PList [])])) None (Inr no_products))
      (endpoint (scenario (answer 200 (PDict [(''parameters'', PList [])])) None (Inr no_products)))
      (request_for ''productCode:13w42'')
     = Inr \<lparr>status_code = 200, body = Some (PDict [(''parameters'', PList [])])\<rparr>
   \<and> search_products (scenario (answer 200 (PDict [(''parameters'', PList [])])) None (Inr no_products))
        ''productCode:13w42''
     = ([HttpPost ''http://localhost:8080/api/v1/translate'' (request_for ''productCode:13w42''),
         Print (OutQuery ''productCode:13w42'')],
        Inl (KeyError ''whereClause''))
   \<and> \<not> isinstance_RequestException (KeyError ''whereClause'')
   \<and> \<not> isinstance_psycopg2_Error (KeyError ''whereClause'')"
  by (simp add: run_defs example_defs)

text \<open>
  C4, as amended. When the post raises a \<^verbatim>\<open>RequestException\<close> (the endpoint cannot be
  reached) or returns a status from 400 to 599, the statuses \<^verbatim>\<open>raise_for_status\<close> rejects,
  the invocation raises that \<^verbatim>\<open>RequestException\<close>, reports it, and makes no call on the
  store: no connection is opened and no statement is executed.
\<close>

theorem error_status_or_unreachable_stops_before_store:
  assumes "(\<exists>e. http_post w (endpoint w) (request_for q) = Inl e \<and> isinstance_RequestException e)
         \<or> (\<exists>resp. http_post w (endpoint w) (request_for q) = Inr resp \<and>
               400 \<le> status_code resp \<and> status_code resp < 600)"
  shows "(\<exists>e. snd (search_products w q) = Inl e \<and> isinstance_RequestException e \<and>
              fst (search_products w q) =
                [HttpPost (endpoint w) (request_for q), Print (OutRsearchError e)])
       \<and> filter is_store_event (fst (search_products w q)) = []"
  using assms
proof (elim disjE exE conjE)
  fix e
  assume p: "http_post w (endpoint w) (request_for q) = Inl e"
    and r: "isinstance_RequestException e"
  have "search_products w q =
          ([HttpPost (endpoint w) (request_for q), Print (OutRsearchError e)], Inl e)"
    using p r by (simp add: search_products_def try_body_def translate_lines_def Let_def)
  then show ?thesis using r by simp
next
  fix resp
  assume p: "http_post w (endpoint w) (request_for q) = Inr resp"
    and s: "400 \<le> status_code resp" "status_code resp < 600"
  have "search_products w q =
          ([HttpPost (endpoint w) (request_for q), Print (OutRsearchError (HTTPError (status_code resp)))],
           Inl (HTTPError (status_code resp)))"
    using p s
    by (simp add: search_products_def try_body_def translate_lines_def raise_for_status_def Let_def)
  then show ?thesis by simp
qed

theorem error_status_or_unreachable_stops_before_store_witness:
  "((\<exists>e. snd (search_products (scenario (answer 500 PNone) None (Inr no_products)) ''price:>=100'')
            = Inl e \<and> isinstance_RequestException e \<and>
          fst (search_products (scenario (answer 500 PNone) None (Inr no_products)) ''price:>=100'') =
            [HttpPost (endpoint (scenario (answer 500 PNone) None (Inr no_products)))
               (request_for ''price:>=100''), Print (OutRsearchError e)])
     \<and> filter is_store_event
         (fst (search_products (scenario (answer 500 PNone) None (Inr no_products)) ''price:>=100'')) = [])
   \<and> ((\<exists>e. snd (search_products (scenario (Inl ConnectionError) None (Inr no_products)) ''price:>=100'')
            = Inl e \<and> isinstance_RequestException e \<and>
          fst (search_products (scenario (Inl ConnectionError) None (Inr no_products)) ''price:>=100'') =
            [HttpPost (endpoint (scenario (Inl ConnectionError) None (Inr no_products)))
               (request_for ''price:>=100''), Print (OutRsearchError e)])
     \<and> filter is_store_event
         (fst (search_products (scenario (Inl ConnectionError) None (Inr no_products)) ''price:>=100'')) = [])"
proof -
  let ?w1 = "scenario (answer 500 PNone) None (Inr no_products)"
  let ?w2 = "scenario (Inl ConnectionError) None (Inr no_products)"
  have h1: "(\<exists>e. http_post ?w1 (endpoint ?w1) (request_for ''price:>=100'') = Inl e \<and>
               isinstance_RequestException e)
         \<or> (\<exists>resp. http_post ?w1 (endpoint ?w1) (request_for ''price:>=100'') = Inr resp \<and>
               400 \<le> status_code resp \<and> status_code resp < 600)"
    by (simp add: scenario_def answer_def)
  have h2: "(\<exists>e. http_post ?w2 (endpoint ?w2) (request_for ''price:>=100'') = Inl e \<and>
               isinstance_RequestException e)
         \<or> (\<exists>resp. http_post ?w2 (endpoint ?w2) (request_for ''price:>=100'') = Inr resp \<and>
               400 \<le> status_code resp \<and> status_code resp < 600)"
    by (simp add: scenario_def)
  from error_status_or_unreachable_stops_before_store [OF h1]
    error_status_or_unreachable_stops_before_store [OF h2]
  show ?thesis by blast
qed

text \<open>
  The claim as stated fails for a status outside 200 to 299 that \<^verbatim>\<open>raise_for_status\<close>
  lets through: an answer with status 300 and a body of the expected shape is executed.
\<close>

theorem status_300_reaches_the_store_counterexample:
  "http_post (scenario (answer 300 by_code) None (Inr no_products))
      (endpoint (scenario (answer 300 by_code) None (Inr no_products)))
      (request_for ''productCode:13w42'')
     = Inr \<lparr>status_code = 300, body = Some by_code\<rparr>
   \<and> search_products (scenario (answer 300 by_code) None (Inr no_products)) ''productCode:13w42''
     = ([HttpPost ''http://localhost:8080/api/v1/translate'' (request_for ''productCode:13w42''),
         Print (OutQuery ''productCode:13w42''), Print (OutSQL (PStr ''product_code = %s'')),
         Print (OutParams (PList [PStr ''13w42''])), Print OutRule,
         Connect DB_CONFIG, ConnOpen, CursorOpen,
         Execute ''SELECT * FROM products WHERE product_code = %s'' (PList [PStr ''13w42'']),
         Description, Fetchall, CursorClose, ConnClose],
        Inr [])"
  by (simp add: run_defs example_defs)

section \<open>The outcome of an invocation\<close>

text \<open>
  C6. An invocation either raises or returns the complete list: when it returns records,
  every step succeeded and there is one record for each row that \<^verbatim>\<open>fetchall\<close> delivered.
  The handlers leave the outcome of the \<^verbatim>\<open>try\<close> body as it is, and an exception that a
  handler reported is the exception the invocation raises.
\<close>

theorem complete_result_or_error:
  "(\<forall>results. snd (search_products w q) = Inr results \<longrightarrow>
      (\<exists>resp t wc ps rs descs rows.
         http_post w (endpoint w) (request_for q) = Inr resp \<and> raise_for_status resp = None \<and>
         body resp = Some t \<and> getitem t ''whereClause'' = Inr wc \<and>
         getitem t ''parameters'' = Inr ps \<and> db_connect w DB_CONFIG = None \<and>
         db_execute w (statement_for w wc) ps = Inr rs \<and> description rs = Some descs \<and>
         fetchall rs = Inr rows \<and> length results = length rows \<and>
         results = map (\<lambda>row. dict_of (zip (map col_name descs) row)) rows))
   \<and> snd (search_products w q) = snd (try_body w q)
   \<and> (\<forall>e. Print (OutRsearchError e) \<in> set (fst (search_products w q)) \<or>
           Print (OutDatabaseError e) \<in> set (fst (search_products w q)) \<longrightarrow>
           snd (search_products w q) = Inl e)"
proof (intro conjI allI impI)
  fix results
  assume r: "snd (search_products w q) = Inr results"
  then obtain t where t: "snd (translate_lines w q) = Inr t"
    and ex: "snd (execute_lines w t) = Inr results"
    by (auto simp add: search_products_result try_body_result split: sum.splits)
  from t obtain resp wc ps where
    "http_post w (endpoint w) (request_for q) = Inr resp" "raise_for_status resp = None"
    "body resp = Some t" "getitem t ''whereClause'' = Inr wc" "getitem t ''parameters'' = Inr ps"
    unfolding translate_lines_Inr by blast
  moreover from ex obtain wc' ps' rs descs rows where
    "db_connect w DB_CONFIG = None" "getitem t ''whereClause'' = Inr wc'"
    "getitem t ''parameters'' = Inr ps'" "db_execute w (statement_for w wc') ps' = Inr rs"
    "description rs = Some descs" "fetchall rs = Inr rows"
    "results = map (\<lambda>row. dict_of (zip (map col_name descs) row)) rows"
    unfolding execute_lines_Inr by blast
  ultimately show "\<exists>resp t wc ps rs descs rows.
         http_post w (endpoint w) (request_for q) = Inr resp \<and> raise_for_status resp = None \<and>
         body resp = Some t \<and> getitem t ''whereClause'' = Inr wc \<and>
         getitem t ''parameters'' = Inr ps \<and> db_connect w DB_CONFIG = None \<and>
         db_execute w (statement_for w wc) ps = Inr rs \<and> description rs = Some descs \<and>
         fetchall rs = Inr rows \<and> length results = length rows \<and>
         results = map (\<lambda>row. dict_of (zip (map col_name descs) row)) rows"
    by (intro exI [of _ resp] exI [of _ t] exI [of _ wc] exI [of _ ps] exI [of _ rs]
        exI [of _ descs] exI [of _ rows]) simp
next
  show "snd (search_products w q) = snd (try_body w q)"
    by (rule search_products_result)
next
  fix e
  assume "Print (OutRsearchError e) \<in> set (fst (search_products w q)) \<or>
          Print (OutDatabaseError e) \<in> set (fst (search_products w q))"
  then have "Print (OutRsearchError e) \<in> set (filter is_error_print (fst (search_products w q))) \<or>
             Print (OutDatabaseError e) \<in> set (filter is_error_print (fst (search_products w q)))"
    by simp
  then show "snd (search_products w q) = Inl e"
    unfolding search_products_reports
    by (cases "snd (search_products w q)") (auto split: if_splits)
qed

theorem complete_result_or_error_witness:
  "(\<exists>resp t wc ps rs descs rows.
      http_post (scenario (answer 200 by_code) None (Inr two_products))
        (endpoint (scenario (answer 200 by_code) None (Inr two_products)))
        (request_for ''productCode:13w42'') = Inr resp \<and>
      raise_for_status resp = None \<and> body resp = Some t \<and>
      getitem t ''whereClause'' = Inr wc \<and> getitem t ''parameters'' = Inr ps \<and>
      db_connect (scenario (answer 200 by_code) None (Inr two_products)) DB_CONFIG = None \<and>
      db_execute (scenario (answer 200 by_code) None (Inr two_products))
        (statement_for (scenario (answer 200 by_code) None (Inr two_products)) wc) ps = Inr rs \<and>
      description rs = Some descs \<and> fetchall rs = Inr rows \<and>
      length [[(''product_code'', PStr ''13w42''), (''price'', PInt 120)],
              [(''product_code'', PStr ''13w42''), (''price'', PInt 80)]] = length rows \<and>
      [[(''product_code'', PStr ''13w42''), (''price'', PInt 120)],
       [(''product_code'', PStr ''13w42''), (''price'', PInt 80)]]
        = map (\<lambda>row. dict_of (zip (map col_name descs) row)) rows)
   \<and> Print (OutDatabaseError OperationalError)
       \<in> set (fst (search_products (scenario (answer 200 by_code) (Some OperationalError)
                     (Inr two_products)) ''productCode:13w42''))
   \<and> snd (search_products (scenario (answer 200 by_code) (Some OperationalError) (Inr two_products))
        ''productCode:13w42'') = Inl OperationalError"
proof -
  let ?u = "scenario (answer 200 by_code) None (Inr two_products)"
  let ?w = "scenario (answer 200 by_code) (Some OperationalError) (Inr two_products)"
  have ok: "snd (search_products ?u ''productCode:13w42'')
     = Inr [[(''product_code'', PStr ''13w42''), (''price'', PInt 120)],
            [(''product_code'', PStr ''13w42''), (''price'', PInt 80)]]"
    by (simp add: run_defs example_defs)
  have p: "Print (OutDatabaseError OperationalError)
             \<in> set (fst (search_products ?w ''productCode:13w42''))"
    by (simp add: run_defs example_defs)
  from complete_result_or_error [of ?u "''productCode:13w42''"] ok
  have a: "\<exists>resp t wc ps rs descs rows.
      http_post ?u (endpoint ?u) (request_for ''productCode:13w42'') = Inr resp \<and>
      raise_for_status resp = None \<and> body resp = Some t \<and>
      getitem t ''whereClause'' = Inr wc \<and> getitem t ''parameters'' = Inr ps \<and>
      db_connect ?u DB_CONFIG = None \<and>
      db_execute ?u (statement_for ?u wc) ps = Inr rs \<and>
      description rs = Some descs \<and> fetchall rs = Inr rows \<and>
      length [[(''product_code'', PStr ''13w42''), (''price'', PInt 120)],
              [(''product_code'', PStr ''13w42''), (''price'', PInt 80)]] = length rows \<and>
      [[(''product_code'', PStr ''13w42''), (''price'', PInt 120)],
       [(''product_code'', PStr ''13w42''), (''price'', PInt 80)]]
        = map (\<lambda>row. dict_of (zip (map col_name descs) row)) rows"
    by blast
  from complete_result_or_error [of ?w "''productCode:13w42''"] p
  have b: "snd (search_products ?w ''productCode:13w42'') = Inl OperationalError"
    by blast
  from a p b show ?thesis by (intro conjI)
qed

text \<open>
  C7. When the translation succeeds, the statement is executed and \<^verbatim>\<open>fetchall\<close> delivers
  no row, the invocation returns the empty list and raises nothing.
\<close>

theorem no_rows_gives_empty_list:
  assumes "http_post w (endpoint w) (request_for q) = Inr resp"
    and "raise_for_status resp = None"
    and "body resp = Some t"
    and "getitem t ''whereClause'' = Inr wc"
    and "getitem t ''parameters'' = Inr ps"
    and "db_connect w DB_CONFIG = None"
    and "db_execute w (statement_for w wc) ps = Inr rs"
    and "description rs = Some descs"
    and "fetchall rs = Inr []"
  shows "snd (search_products w q) = Inr []"
  by (simp add: successful_run [OF assms])

theorem no_rows_gives_empty_list_witness:
  "snd (search_products (scenario (answer 200 by_code) None (Inr no_products)) ''productCode:13w42'')
     = Inr []"
proof (rule no_rows_gives_empty_list)
  let ?w = "scenario (answer 200 by_code) None (Inr no_products)"
  show "http_post ?w (endpoint ?w) (request_for ''productCode:13w42'')
          = Inr \<lparr>status_code = 200, body = Some by_code\<rparr>"
    by (simp add: scenario_def answer_def)
  show "raise_for_status \<lparr>status_code = 200, body = Some by_code\<rparr> = None"
    by (simp add: raise_for_status_def)
  show "body \<lparr>status_code = 200, body = Some by_code\<rparr> = Some by_code"
    by simp
  show "getitem by_code ''whereClause'' = Inr (PStr ''product_code = %s'')"
    by (simp add: by_code_def)
  show "getitem by_code ''parameters'' = Inr (PList [PStr ''13w42''])"
    by (simp add: by_code_def)
  show "db_connect ?w DB_CONFIG = None"
    by (simp add: scenario_def)
  show "db_execute ?w (statement_for ?w (PStr ''product_code = %s'')) (PList [PStr ''13w42''])
          = Inr no_products"
    by (simp add: scenario_def)
  show "description no_products = Some product_columns"
    by (simp add: no_products_def)
  show "fetchall no_products = Inr []"
    by (simp add: no_products_def)
qed

section \<open>Records\<close>

text \<open>
  C8. On a successful invocation \<^verbatim>\<open>cur.description\<close> is read once; there is one record
  for each row, at the row's position in the order \<^verbatim>\<open>fetchall\<close> delivered; the record is
  \<^verbatim>\<open>dict(zip(columns, row))\<close>, which as a map sends a column name to the value zipped
  with it (to the last such value, should the name occur twice).
\<close>

theorem records_zip_columns_in_store_order:
  assumes "http_post w (endpoint w) (request_for q) = Inr resp"
    and "raise_for_status resp = None"
    and "body resp = Some t"
    and "getitem t ''whereClause'' = Inr wc"
    and "getitem t ''parameters'' = Inr ps"
    and "db_connect w DB_CONFIG = None"
    and "db_execute w (statement_for w wc) ps = Inr rs"
    and "description rs = Some descs"
    and "fetchall rs = Inr rows"
  shows "\<exists>results. snd (search_products w q) = Inr results \<and> length results = length rows \<and>
           (\<forall>i<length rows.
              results ! i = dict_of (zip (map col_name descs) (rows ! i)) \<and>
              map_of (results ! i) = map_of (rev (zip (map col_name descs) (rows ! i)))) \<and>
           count_list (fst (search_products w q)) Description = 1"
  by (simp add: successful_run [OF assms] dict_of_map_of)

theorem records_zip_columns_in_store_order_witness:
  "\<exists>results. snd (search_products (scenario (answer 200 by_code) None (Inr two_products))
                    ''productCode:13w42'') = Inr results \<and>
     length results = length [[PStr ''13w42'', PInt 120], [PStr ''13w42'', PInt 80]] \<and>
     (\<forall>i<length [[PStr ''13w42'', PInt 120], [PStr ''13w42'', PInt 80]].
        results ! i = dict_of (zip (map col_name product_columns)
                        ([[PStr ''13w42'', PInt 120], [PStr ''13w42'', PInt 80]] ! i)) \<and>
        map_of (results ! i) = map_of (rev (zip (map col_name product_columns)
                        ([[PStr ''13w42'', PInt 120], [PStr ''13w42'', PInt 80]] ! i)))) \<and>
     count_list (fst (search_products (scenario (answer 200 by_code) None (Inr two_products))
                    ''productCode:13w42'')) Description = 1"
proof (rule records_zip_columns_in_store_order)
  let ?w = "scenario (answer 200 by_code) None (Inr two_products)"
  show "http_post ?w (endpoint ?w) (request_for ''productCode:13w42'')
          = Inr \<lparr>status_code = 200, body = Some by_code\<rparr>"
    by (simp add: scenario_def answer_def)
  show "raise_for_status \<lparr>status_code = 200, body = Some by_code\<rparr> = None"
    by (simp add: raise_for_status_def)
  show "body \<lparr>status_code = 200, body = Some by_code\<rparr> = Some by_code"
    by simp
  show "getitem by_code ''whereClause'' = Inr (PStr ''product_code = %s'')"
    by (simp add: by_code_def)
  show "getitem by_code ''parameters'' = Inr (PList [PStr ''13w42''])"
    by (simp add: by_code_def)
  show "db_connect ?w DB_CONFIG = None"
    by (simp add: scenario_def)
  show "db_execute ?w (statement_for ?w (PStr ''product_code = %s'')) (PList [PStr ''13w42''])
          = Inr two_products"
    by (simp add: scenario_def)
  show "description two_products = Some product_columns"
    by (simp add: two_products_def)
  show "fetchall two_products = Inr [[PStr ''13w42'', PInt 120], [PStr ''13w42'', PInt 80]]"
    by (simp add: two_products_def)
qed

text \<open>
  C10. When the metadata names a column twice and a row has one value for each column,
  the invocation still returns; the row's record has fewer entries than the row has
  values, and a name maps to the value of its last column.
\<close>

theorem repeated_column_name_keeps_last_value:
  assumes "http_post w (endpoint w) (request_for q) = Inr resp"
    and "raise_for_status resp = None"
    and "body resp = Some t"
    and "getitem t ''whereClause'' = Inr wc"
    and "getitem t ''parameters'' = Inr ps"
    and "db_connect w DB_CONFIG = None"
    and "db_execute w (statement_for w wc) ps = Inr rs"
    and "description rs = Some descs"
    and "fetchall rs = Inr rows"
    and "\<not> distinct (map col_name descs)"
    and "i < length rows"
    and "length (rows ! i) = length descs"
  shows "\<exists>results. snd (search_products w q) = Inr results \<and> length results = length rows \<and>
           length (results ! i) < length (rows ! i) \<and>
           (\<forall>j<length descs.
              (\<forall>j'. j < j' \<and> j' < length descs \<longrightarrow> col_name (descs ! j') \<noteq> col_name (descs ! j)) \<longrightarrow>
              map_of (results ! i) (col_name (descs ! j)) = Some (rows ! i ! j))"
proof -
  let ?cols = "map col_name descs"
  let ?pairs = "zip ?cols (rows ! i)"
  have len: "length ?pairs = length descs"
    using assms(12) by simp
  have keys: "map fst ?pairs = ?cols"
    using assms(12) by simp
  have shorter: "length (dict_of ?pairs) < length (rows ! i)"
    using dict_of_shorter [of ?pairs] assms(10,12) keys by simp
  have last: "map_of (dict_of ?pairs) (col_name (descs ! j)) = Some (rows ! i ! j)"
    if j: "j < length descs"
      and later: "\<forall>j'. j < j' \<and> j' < length descs \<longrightarrow> col_name (descs ! j') \<noteq> col_name (descs ! j)"
    for j
  proof -
    have "map_of (rev ?pairs) (fst (?pairs ! j)) = Some (snd (?pairs ! j))"
    proof (rule last_binding_wins)
      show "j < length ?pairs" using j len by simp
      show "\<forall>j'. j < j' \<and> j' < length ?pairs \<longrightarrow> fst (?pairs ! j') \<noteq> fst (?pairs ! j)"
        using later j len assms(12) by simp
    qed
    then show ?thesis
      using j assms(12) by (simp add: dict_of_map_of)
  qed
  show ?thesis
    using shorter last assms(11)
    by (simp add: successful_run [OF assms(1-9)])
qed

theorem repeated_column_name_keeps_last_value_witness:
  "snd (search_products (scenario (answer 200 by_code) None (Inr joined_rows)) ''productCode:13w42'')
     = Inr [[(''id'', PInt 7), (''name'', PStr ''Widget'')]]
   \<and> (\<exists>results. snd (search_products (scenario (answer 200 by_code) None (Inr joined_rows))
                    ''productCode:13w42'') = Inr results \<and>
        length results = length [[PInt 1, PStr ''Widget'', PInt 7]] \<and>
        length (results ! 0) < length ([[PInt 1, PStr ''Widget'', PInt 7]] ! 0) \<and>
        map_of (results ! 0) ''id'' = Some (PInt 7))"
proof -
  let ?w = "scenario (answer 200 by_code) None (Inr joined_rows)"
  let ?descs = "[\<lparr>col_name = ''id'', type_code = 23\<rparr>, \<lparr>col_name = ''name'', type_code = 1043\<rparr>,
                 \<lparr>col_name = ''id'', type_code = 23\<rparr>]"
  let ?rows = "[[PInt 1, PStr ''Widget'', PInt 7]]"
  have h1: "http_post ?w (endpoint ?w) (request_for ''productCode:13w42'')
          = Inr \<lparr>status_code = 200, body = Some by_code\<rparr>"
    by (simp add: scenario_def answer_def)
  have h2: "raise_for_status \<lparr>status_code = 200, body = Some by_code\<rparr> = None"
    by (simp add: raise_for_status_def)
  have h3: "body \<lparr>status_code = 200, body = Some by_code\<rparr> = Some by_code"
    by simp
  have h4: "getitem by_code ''whereClause'' = Inr (PStr ''product_code = %s'')"
    by (simp add: by_code_def)
  have h5: "getitem by_code ''parameters'' = Inr (PList [PStr ''13w42''])"
    by (simp add: by_code_def)
  have h6: "db_connect ?w DB_CONFIG = None"
    by (simp add: scenario_def)
  have h7: "db_execute ?w (statement_for ?w (PStr ''product_code = %s'')) (PList [PStr ''13w42''])
          = Inr joined_rows"
    by (simp add: scenario_def)
  have h8: "description joined_rows = Some ?descs"
    by (simp add: joined_rows_def)
  have h9: "fetchall joined_rows = Inr ?rows"
    by (simp add: joined_rows_def)
  have h10: "\<not> distinct (map col_name ?descs)" by simp
  have h11: "0 < length ?rows" by simp
  have h12: "length (?rows ! 0) = length ?descs" by simp
  have ev: "snd (search_products ?w ''productCode:13w42'')
              = Inr [[(''id'', PInt 7), (''name'', PStr ''Widget'')]]"
    by (simp add: run_defs example_defs)
  from repeated_column_name_keeps_last_value [OF h1 h2 h3 h4 h5 h6 h7 h8 h9 h10 h11 h12]
  obtain results where r: "snd (search_products ?w ''productCode:13w42'') = Inr results"
    and l: "length results = length ?rows"
    and s: "length (results ! 0) < length (?rows ! 0)"
    and m: "\<forall>j<length ?descs.
              (\<forall>j'. j < j' \<and> j' < length ?descs \<longrightarrow> col_name (?descs ! j') \<noteq> col_name (?descs ! j)) \<longrightarrow>
              map_of (results ! 0) (col_name (?descs ! j)) = Some (?rows ! 0 ! j)"
    by blast
  have "\<forall>j'. (2::nat) < j' \<and> j' < length ?descs \<longrightarrow> col_name (?descs ! j') \<noteq> col_name (?descs ! 2)"
    by simp
  with m [rule_format, of 2] have "map_of (results ! 0) ''id'' = Some (PInt 7)"
    by simp
  with r l s ev show ?thesis by blast
qed

end
